theory Spec2Isabelle
  imports Complex_Main
begin

unbundle bit_operations_syntax

section \<open>The L9110 motor driver\<close>

text \<open>
  A shallow embedding of the class \<^verbatim>\<open>L9110\<close> of \<^verbatim>\<open>MKE_M17/L9110_I2C.py\<close>.
  Arguments and attributes that the docstrings declare \<^verbatim>\<open>int\<close> are Python integers,
  which are unbounded, so they are \<open>int\<close> here; \<open>//\<close> is \<open>div\<close> (both round towards
  minus infinity), \<open>>> 8\<close> is \<open>drop_bit 8\<close> and \<open>& 0xFF\<close> is \<open>AND 0xFF\<close> (both read a
  negative integer in two's complement, as Python does). The two arguments that the
  docstrings declare \<^verbatim>\<open>float\<close>, \<^verbatim>\<open>degree\<close> and \<^verbatim>\<open>percent\<close>, are a \<open>number\<close>: a
  Python integer or a Python float.

  An exception that leaves a method is a value \<open>Inl e\<close>; a method that returns gives
  \<open>Inr (result, object after the call)\<close>. In every method each statement that can raise
  comes before the bus write and before the first assignment to an attribute, so after
  \<open>Inl e\<close> the object and the bus are as they were before the call. The text printed on
  the console is not part of the model.
\<close>

subsection \<open>Class constants\<close>

definition MODE_RC :: int where "MODE_RC = 0"
definition S1 :: int where "S1 = 1"
definition S2 :: int where "S2 = 2"
definition MODE_DC :: int where "MODE_DC = 1"
definition MA :: int where "MA = 0"
definition MB :: int where "MB = 1"
definition CW :: int where "CW = 0"
definition CCW :: int where "CCW = 1"
definition MODE_SET_ADDR :: int where "MODE_SET_ADDR = 2"

subsection \<open>The bus and the driver object\<close>

text \<open>
  \<^verbatim>\<open>smbus2.SMBus\<close> is not code of this repository. One call
  \<^verbatim>\<open>write_i2c_block_data(address, register, data)\<close> either returns or raises
  \<^verbatim>\<open>IOError\<close>; which of the two is a parameter of every method that may reach the
  bus (\<open>smbus\<close>). The calls that were made are kept, oldest first, in the field
  \<open>bus_log\<close> of the driver object, as a recording mock bus would keep them.
\<close>

datatype py_error = ZeroDivisionError | IndexError | OverflowError | TypeError

datatype io_result = Written | IOError

type_synonym bus_call = "int \<times> int \<times> int list"

type_synonym smbus = "int \<Rightarrow> int \<Rightarrow> int list \<Rightarrow> io_result"

record L9110 =
  address :: int
  min_degree :: int
  max_degree :: int
  min_pulse :: int
  max_pulse :: int
  bus_log :: "bus_call list"

text \<open>\<^verbatim>\<open>__init__(address=0x40, bus_number=1)\<close>, on a bus that has seen no call yet.\<close>

definition init :: "int \<Rightarrow> L9110" where
  "init addr =
     \<lparr>address = addr, min_degree = 0, max_degree = 180,
      min_pulse = 500, max_pulse = 2500, bus_log = []\<rparr>"

subsection \<open>Integers and floats\<close>

text \<open>
  A Python float is a finite value, an infinity or a NaN. \<open>Finite r\<close> stands for the
  float whose exact value is \<open>r\<close>; the floats are those \<open>r\<close> that a double represents, so
  what holds for every \<open>r\<close> holds for every float.
\<close>

datatype pyfloat = Finite real | Pos_inf | Neg_inf | NaN

datatype number = PyInt int | PyFloat pyfloat

text \<open>
  \<^verbatim>\<open>i <= x\<close> and \<^verbatim>\<open>x <= i\<close> for an integer \<open>i\<close>. Python compares an integer with a
  float by their exact values; every comparison with a NaN is false.
\<close>

fun int_le :: "int \<Rightarrow> number \<Rightarrow> bool" where
  "int_le i (PyInt j) = (i \<le> j)"
| "int_le i (PyFloat (Finite r)) = (real_of_int i \<le> r)"
| "int_le i (PyFloat Pos_inf) = True"
| "int_le i (PyFloat Neg_inf) = False"
| "int_le i (PyFloat NaN) = False"

fun le_int :: "number \<Rightarrow> int \<Rightarrow> bool" where
  "le_int (PyInt j) i = (j \<le> i)"
| "le_int (PyFloat (Finite r)) i = (r \<le> real_of_int i)"
| "le_int (PyFloat Pos_inf) i = False"
| "le_int (PyFloat Neg_inf) i = True"
| "le_int (PyFloat NaN) i = False"

text \<open>
  Arithmetic between a float and an integer first converts the integer to a float, which
  raises \<^verbatim>\<open>OverflowError\<close> when the integer rounds to a magnitude of \<open>2 ^ 1024\<close> or
  more.
\<close>

definition float_overflow :: "int \<Rightarrow> bool" where
  "float_overflow i \<longleftrightarrow> 2 ^ 1024 - 2 ^ 970 \<le> \<bar>i\<bar>"

subsection \<open>Methods\<close>

text \<open>\<^verbatim>\<open>_map_range\<close> on integers.\<close>

definition map_range :: "int \<Rightarrow> int \<Rightarrow> int \<Rightarrow> int \<Rightarrow> int \<Rightarrow> py_error + int" where
  "map_range x in_min in_max out_min out_max =
     (if in_max - in_min = 0 then Inl ZeroDivisionError
      else Inr ((x - in_min) * (out_max - out_min) div (in_max - in_min) + out_min))"

text \<open>
  \<^verbatim>\<open>_map_range\<close> on a float \<open>x\<close> and integer bounds. The subtractions of bounds are
  integer arithmetic; \<open>x - in_min\<close>, the product, the floor division and the final
  sum are float arithmetic, each converting its integer operand first. Float arithmetic
  itself raises only on a zero divisor (an overflow gives an infinity). Whenever nothing
  raises the result is a float; its value is not tracked (\<open>Inr ()\<close>), as both callers
  raise on a float before using it.
\<close>

definition map_range_float :: "pyfloat \<Rightarrow> int \<Rightarrow> int \<Rightarrow> int \<Rightarrow> int \<Rightarrow> py_error + unit" where
  "map_range_float x in_min in_max out_min out_max =
     (if float_overflow in_min then Inl OverflowError
      else if float_overflow (out_max - out_min) then Inl OverflowError
      else if float_overflow (in_max - in_min) then Inl OverflowError
      else if in_max - in_min = 0 then Inl ZeroDivisionError
      else if float_overflow out_min then Inl OverflowError
      else Inr ())"

definition set_range_degree :: "L9110 \<Rightarrow> int \<Rightarrow> int \<Rightarrow> bool \<times> L9110" where
  "set_range_degree self mn mx =
     (if \<not> (0 \<le> mn \<and> mn < mx \<and> mx \<le> 360) then (False, self)
      else (True, self\<lparr>min_degree := mn, max_degree := mx\<rparr>))"

definition set_range_pulse :: "L9110 \<Rightarrow> int \<Rightarrow> int \<Rightarrow> bool \<times> L9110" where
  "set_range_pulse self mn mx =
     (if \<not> (0 \<le> mn \<and> mn < mx \<and> mx \<le> 2815) then (False, self)
      else (True, self\<lparr>min_pulse := mn, max_pulse := mx\<rparr>))"

text \<open>
  \<^verbatim>\<open>_send_data\<close>: \<^verbatim>\<open>data[0]\<close> raises \<^verbatim>\<open>IndexError\<close> on an empty list, and
  the \<^verbatim>\<open>except\<close> clause catches \<^verbatim>\<open>IOError\<close> only; \<^verbatim>\<open>data[1:]\<close> is the rest of
  the list.
\<close>

definition send_data :: "smbus \<Rightarrow> L9110 \<Rightarrow> int list \<Rightarrow> py_error + (bool \<times> L9110)" where
  "send_data bus self data =
     (case data of
        [] \<Rightarrow> Inl IndexError
      | reg # payload \<Rightarrow>
          (let self' = self\<lparr>bus_log := bus_log self @ [(address self, reg, payload)]\<rparr>
           in case bus (address self) reg payload of
                Written \<Rightarrow> Inr (True, self')
              | IOError \<Rightarrow> Inr (False, self')))"

text \<open>
  \<^verbatim>\<open>control_servo\<close>. When \<^verbatim>\<open>degree\<close> is a float the pulse is a float, and
  \<^verbatim>\<open>pulse >> 8\<close> raises \<^verbatim>\<open>TypeError\<close>.
\<close>

definition control_servo ::
  "smbus \<Rightarrow> L9110 \<Rightarrow> int \<Rightarrow> number \<Rightarrow> py_error + (bool \<times> L9110)" where
  "control_servo bus self servo_id degree =
     (if \<not> (int_le (min_degree self) degree \<and> le_int degree (max_degree self))
      then Inr (False, self)
      else
        (let data = [MODE_RC, servo_id, 0, 0, 0]
         in case degree of
              PyInt d \<Rightarrow>
                (case map_range d (min_degree self) (max_degree self)
                        (min_pulse self) (max_pulse self) of
                   Inl e \<Rightarrow> Inl e
                 | Inr pulse \<Rightarrow>
                     (let data = data[2 := drop_bit 8 pulse];
                          data = data[3 := pulse AND 0xFF];
                          data = data[4 := sum_list data AND 0xFF]
                      in send_data bus self data))
            | PyFloat x \<Rightarrow>
                (case map_range_float x (min_degree self) (max_degree self)
                        (min_pulse self) (max_pulse self) of
                   Inl e \<Rightarrow> Inl e
                 | Inr pulse \<Rightarrow> Inl TypeError)))"

text \<open>
  \<^verbatim>\<open>control_motor\<close>. When \<^verbatim>\<open>percent\<close> is a float, \<^verbatim>\<open>data[2]\<close> is a float.
  \<^verbatim>\<open>sum(data)\<close> adds from the left, so the integer \<open>MODE_DC + motor_id\<close> is converted to
  a float when \<^verbatim>\<open>data[2]\<close> is added to it; the sum is a float, and \<^verbatim>\<open>& 0xFF\<close> on it
  raises \<^verbatim>\<open>TypeError\<close>.
\<close>

definition control_motor ::
  "smbus \<Rightarrow> L9110 \<Rightarrow> int \<Rightarrow> number \<Rightarrow> int \<Rightarrow> py_error + (bool \<times> L9110)" where
  "control_motor bus self motor_id percent direction =
     (if \<not> (int_le 0 percent \<and> le_int percent 100) then Inr (False, self)
      else if direction \<notin> {CW, CCW} then Inr (False, self)
      else
        (let data = [MODE_DC, motor_id, 0, 0, 0]
         in case percent of
              PyInt p \<Rightarrow>
                (case map_range p 0 100 0 255 of
                   Inl e \<Rightarrow> Inl e
                 | Inr speed \<Rightarrow>
                     (let data = data[2 := speed];
                          data = data[3 := direction];
                          data = data[4 := sum_list data AND 0xFF]
                      in send_data bus self data))
            | PyFloat x \<Rightarrow>
                (case map_range_float x 0 100 0 255 of
                   Inl e \<Rightarrow> Inl e
                 | Inr speed \<Rightarrow>
                     (if float_overflow (MODE_DC + motor_id) then Inl OverflowError
                      else Inl TypeError))))"

definition set_address :: "smbus \<Rightarrow> L9110 \<Rightarrow> int \<Rightarrow> py_error + (bool \<times> L9110)" where
  "set_address bus self new_address =
     (if \<not> (0x40 \<le> new_address \<and> new_address \<le> 0x44) then Inr (False, self)
      else
        (let data = [MODE_SET_ADDR, 0, 0, 0, new_address + MODE_SET_ADDR]
         in case send_data bus self data of
              Inl e \<Rightarrow> Inl e
            | Inr (sent, self') \<Rightarrow>
                (if sent then Inr (True, self'\<lparr>address := new_address\<rparr>)
                 else Inr (False, self'))))"

subsection \<open>What a recording bus observes\<close>

text \<open>
  The calls a method added to the log, and the frame a call carries: the register
  argument followed by the block.
\<close>

definition new_calls :: "L9110 \<Rightarrow> L9110 \<Rightarrow> bus_call list" where
  "new_calls before after = drop (length (bus_log before)) (bus_log after)"

fun frame_of :: "bus_call \<Rightarrow> int list" where
  "frame_of (addr, reg, payload) = reg # payload"

fun payload_of :: "bus_call \<Rightarrow> int list" where
  "payload_of (addr, reg, payload) = payload"

fun register_of :: "bus_call \<Rightarrow> int" where
  "register_of (addr, reg, payload) = reg"

definition checksum_ok :: "int list \<Rightarrow> bool" where
  "checksum_ok frame \<longleftrightarrow>
     length frame = 5 \<and>
     frame ! 4 = (frame ! 0 + frame ! 1 + frame ! 2 + frame ! 3) AND 0xFF"

text \<open>A bus on which every write succeeds, and one on which every write fails.\<close>

definition bus_ok :: smbus where
  "bus_ok addr reg payload = Written"

definition bus_down :: smbus where
  "bus_down addr reg payload = IOError"

text \<open>
  The rounding rule as the specification words it: the floor of the exact quotient,
  taken in the reals.
\<close>

definition map_range_spec :: "int \<Rightarrow> int \<Rightarrow> int \<Rightarrow> int \<Rightarrow> int \<Rightarrow> int" where
  "map_range_spec x in_min in_max out_min out_max =
     \<lfloor>real_of_int ((x - in_min) * (out_max - out_min)) / real_of_int (in_max - in_min)\<rfloor>
       + out_min"

subsection \<open>A driver in use\<close>

text \<open>
  A client reaches the attributes of a driver only through \<^verbatim>\<open>__init__\<close> and the
  five public methods. \<open>invoke\<close> is one such method call and \<open>session\<close> a sequence of
  them from a given object, each with the behaviour of the bus during that call; the
  sequence stops at the first exception that leaves a method.
\<close>

datatype method_call =
    Set_range_degree int int
  | Set_range_pulse int int
  | Control_servo int number
  | Control_motor int number int
  | Set_address int

fun invoke :: "smbus \<Rightarrow> L9110 \<Rightarrow> method_call \<Rightarrow> py_error + (bool \<times> L9110)" where
  "invoke bus self (Set_range_degree mn mx) = Inr (set_range_degree self mn mx)"
| "invoke bus self (Set_range_pulse mn mx) = Inr (set_range_pulse self mn mx)"
| "invoke bus self (Control_servo servo_id degree) = control_servo bus self servo_id degree"
| "invoke bus self (Control_motor motor_id percent direction) =
     control_motor bus self motor_id percent direction"
| "invoke bus self (Set_address new_address) = set_address bus self new_address"

fun session :: "L9110 \<Rightarrow> (smbus \<times> method_call) list \<Rightarrow> py_error + L9110" where
  "session self [] = Inr self"
| "session self ((bus, c) # cs) =
     (case invoke bus self c of
        Inl e \<Rightarrow> Inl e
      | Inr (r, self') \<Rightarrow> session self' cs)"

text \<open>The bounds that \<^verbatim>\<open>set_range_degree\<close> and \<^verbatim>\<open>set_range_pulse\<close> enforce.\<close>

definition config_ok :: "L9110 \<Rightarrow> bool" where
  "config_ok self \<longleftrightarrow>
     0 \<le> min_degree self \<and> min_degree self < max_degree self \<and> max_degree self \<le> 360 \<and>
     0 \<le> min_pulse self \<and> min_pulse self < max_pulse self \<and> max_pulse self \<le> 2815"

section \<open>What each method does, case by case\<close>

lemmas L9110_consts =
  MODE_RC_def S1_def S2_def MODE_DC_def MA_def MB_def CW_def CCW_def MODE_SET_ADDR_def

lemma and_255_mod: "(x::int) AND 0xFF = x mod 256"
proof -
  have "x AND mask 8 = x mod 2 ^ 8"
    by (simp only: take_bit_eq_mod flip: take_bit_eq_mask)
  then show ?thesis by (simp add: mask_eq_exp_minus_1)
qed

lemma new_calls_same [simp]: "new_calls self self = []"
  by (simp add: new_calls_def)

lemma new_calls_append [simp]:
  "new_calls self (self\<lparr>bus_log := bus_log self @ cs\<rparr>) = cs"
  by (simp add: new_calls_def)

lemma new_calls_append_address [simp]:
  "new_calls self (self\<lparr>bus_log := bus_log self @ cs, address := a\<rparr>) = cs"
  by (simp add: new_calls_def)

lemma send_data_frame:
  "send_data bus self [b0, b1, b2, b3, b4] =
     Inr (bus (address self) b0 [b1, b2, b3, b4] = Written,
          self\<lparr>bus_log := bus_log self @ [(address self, b0, [b1, b2, b3, b4])]\<rparr>)"
  by (simp add: send_data_def Let_def split: io_result.split)

lemma float_overflow_small: "\<bar>i\<bar> \<le> 2 ^ 16 \<Longrightarrow> \<not> float_overflow i"
proof -
  have "(2::int) ^ 16 < 2 ^ 1024 - 2 ^ 970" by simp
  then show "\<bar>i\<bar> \<le> 2 ^ 16 \<Longrightarrow> \<not> float_overflow i"
    unfolding float_overflow_def by linarith
qed

lemma control_servo_invalid:
  "\<not> (int_le (min_degree self) degree \<and> le_int degree (max_degree self)) \<Longrightarrow>
     control_servo bus self servo_id degree = Inr (False, self)"
  by (simp add: control_servo_def)

lemma control_servo_degenerate:
  "min_degree self \<le> d \<Longrightarrow> d \<le> max_degree self \<Longrightarrow>
   max_degree self = min_degree self \<Longrightarrow>
     control_servo bus self servo_id (PyInt d) = Inl ZeroDivisionError"
  by (simp add: control_servo_def map_range_def)

lemma control_servo_valid:
  assumes "min_degree self \<le> d" and "d \<le> max_degree self"
    and "map_range d (min_degree self) (max_degree self) (min_pulse self) (max_pulse self)
           = Inr pulse"
  shows "control_servo bus self servo_id (PyInt d) =
     (let payload = [servo_id, drop_bit 8 pulse, pulse AND 0xFF,
                     (servo_id + drop_bit 8 pulse + (pulse AND 0xFF)) AND 0xFF]
      in Inr (bus (address self) 0 payload = Written,
              self\<lparr>bus_log := bus_log self @ [(address self, 0, payload)]\<rparr>))"
  using assms
  by (simp add: control_servo_def MODE_RC_def Let_def send_data_frame add.assoc)

lemma control_servo_float:
  "control_servo bus self servo_id (PyFloat x) = Inr (False, self)
   \<or> (\<exists>e. control_servo bus self servo_id (PyFloat x) = Inl e)"
  by (simp add: control_servo_def Let_def split: sum.split)

lemma control_servo_cases:
  "control_servo bus self servo_id degree = Inr (False, self)
   \<or> (\<exists>e. control_servo bus self servo_id degree = Inl e)
   \<or> (\<exists>pulse. control_servo bus self servo_id degree =
        (let payload = [servo_id, drop_bit 8 pulse, pulse AND 0xFF,
                     (servo_id + drop_bit 8 pulse + (pulse AND 0xFF)) AND 0xFF]
         in Inr (bus (address self) 0 payload = Written,
              self\<lparr>bus_log := bus_log self @ [(address self, 0, payload)]\<rparr>)))"
proof (cases degree)
  case (PyFloat x)
  with control_servo_float [of bus self servo_id x] show ?thesis by blast
next
  case (PyInt d)
  show ?thesis
  proof (cases "min_degree self \<le> d \<and> d \<le> max_degree self")
    case False
    with PyInt have "control_servo bus self servo_id degree = Inr (False, self)"
      by (simp add: control_servo_invalid)
    then show ?thesis by blast
  next
    case inr: True
    show ?thesis
    proof (cases "map_range d (min_degree self) (max_degree self)
                    (min_pulse self) (max_pulse self)")
      case (Inl e)
      with PyInt inr have "control_servo bus self servo_id degree = Inl e"
        by (simp add: control_servo_def)
      then show ?thesis by blast
    next
      case (Inr pulse)
      with PyInt inr control_servo_valid [of self d pulse bus servo_id]
      show ?thesis by blast
    qed
  qed
qed

lemma control_motor_invalid:
  "\<not> (int_le 0 percent \<and> le_int percent 100) \<or> direction \<notin> {CW, CCW} \<Longrightarrow>
     control_motor bus self motor_id percent direction = Inr (False, self)"
  by (auto simp add: control_motor_def)

lemma control_motor_valid:
  assumes "0 \<le> p" and "p \<le> 100" and "direction \<in> {CW, CCW}"
  shows "control_motor bus self motor_id (PyInt p) direction =
     (let payload = [motor_id, p * 255 div 100, direction,
                     (1 + motor_id + p * 255 div 100 + direction) AND 0xFF]
      in Inr (bus (address self) 1 payload = Written,
              self\<lparr>bus_log := bus_log self @ [(address self, 1, payload)]\<rparr>))"
  using assms
  by (simp add: control_motor_def map_range_def MODE_DC_def Let_def
      send_data_frame add.assoc)

lemma control_motor_float:
  "control_motor bus self motor_id (PyFloat x) direction = Inr (False, self)
   \<or> (\<exists>e. control_motor bus self motor_id (PyFloat x) direction = Inl e)"
  by (simp add: control_motor_def Let_def split: sum.split)

lemma control_motor_cases:
  "control_motor bus self motor_id percent direction = Inr (False, self)
   \<or> (\<exists>e. control_motor bus self motor_id percent direction = Inl e)
   \<or> (\<exists>p. control_motor bus self motor_id percent direction =
        (let payload = [motor_id, p * 255 div 100, direction,
                        (1 + motor_id + p * 255 div 100 + direction) AND 0xFF]
         in Inr (bus (address self) 1 payload = Written,
                 self\<lparr>bus_log := bus_log self @ [(address self, 1, payload)]\<rparr>)))"
proof (cases percent)
  case (PyFloat x)
  with control_motor_float [of bus self motor_id x direction] show ?thesis by blast
next
  case (PyInt p)
  show ?thesis
  proof (cases "0 \<le> p \<and> p \<le> 100 \<and> direction \<in> {CW, CCW}")
    case False
    with PyInt have "control_motor bus self motor_id percent direction = Inr (False, self)"
      using control_motor_invalid [of percent direction bus self motor_id] by auto
    then show ?thesis by blast
  next
    case True
    with PyInt control_motor_valid [of p direction bus self motor_id]
    show ?thesis by blast
  qed
qed

text \<open>
  Floats: with well-formed ranges an in-range float degree raises \<^verbatim>\<open>TypeError\<close>, and
  so does an in-range float percent with a valid direction unless the channel is too
  large to convert.
\<close>

lemma control_servo_float_in_range:
  assumes "config_ok self"
    and "int_le (min_degree self) (PyFloat x)" and "le_int (PyFloat x) (max_degree self)"
  shows "control_servo bus self servo_id (PyFloat x) = Inl TypeError"
proof -
  from assms(1) have "\<not> float_overflow (min_degree self)"
    "\<not> float_overflow (max_pulse self - min_pulse self)"
    "\<not> float_overflow (max_degree self - min_degree self)"
    "\<not> float_overflow (min_pulse self)" "max_degree self - min_degree self \<noteq> 0"
    by (simp_all add: config_ok_def float_overflow_small)
  then have "map_range_float x (min_degree self) (max_degree self)
               (min_pulse self) (max_pulse self) = Inr ()"
    by (simp add: map_range_float_def)
  with assms(2,3) show ?thesis by (simp add: control_servo_def)
qed

lemma control_motor_float_in_range:
  assumes "int_le 0 (PyFloat x)" and "le_int (PyFloat x) 100" and "direction \<in> {CW, CCW}"
  shows "control_motor bus self motor_id (PyFloat x) direction =
           (if float_overflow (MODE_DC + motor_id) then Inl OverflowError else Inl TypeError)"
proof -
  have "map_range_float x 0 100 0 255 = Inr ()"
    by (simp add: map_range_float_def float_overflow_small)
  with assms show ?thesis by (simp add: control_motor_def)
qed

lemma set_address_invalid:
  "\<not> (0x40 \<le> new_address \<and> new_address \<le> 0x44) \<Longrightarrow>
     set_address bus self new_address = Inr (False, self)"
  by (simp add: set_address_def)

lemma set_address_valid:
  assumes "0x40 \<le> new_address" and "new_address \<le> 0x44"
  shows "set_address bus self new_address =
     (let call = (address self, 2, [0, 0, 0, new_address + 2]);
          sent = (bus (address self) 2 [0, 0, 0, new_address + 2] = Written)
      in Inr (sent, self\<lparr>bus_log := bus_log self @ [call],
                          address := if sent then new_address else address self\<rparr>))"
  using assms
  by (simp add: set_address_def MODE_SET_ADDR_def Let_def send_data_frame)

lemma set_address_cases:
  "set_address bus self new_address = Inr (False, self)
   \<or> set_address bus self new_address =
     (let call = (address self, 2, [0, 0, 0, new_address + 2]);
          sent = (bus (address self) 2 [0, 0, 0, new_address + 2] = Written)
      in Inr (sent, self\<lparr>bus_log := bus_log self @ [call],
                          address := if sent then new_address else address self\<rparr>))"
  using set_address_invalid[of new_address bus self]
    set_address_valid[of new_address bus self]
  by blast

subsection \<open>The configured ranges stay well-formed\<close>

text \<open>
  A driver built by \<^verbatim>\<open>__init__\<close> and used through its methods always has
  \<open>min_degree < max_degree\<close>, so \<^verbatim>\<open>_map_range\<close> never divides by zero there.
\<close>

lemma config_ok_init: "config_ok (init addr)"
  by (simp add: config_ok_def init_def)

lemma config_ok_log [simp]:
  "config_ok (self\<lparr>bus_log := l\<rparr>) = config_ok self"
  "config_ok (self\<lparr>address := a\<rparr>) = config_ok self"
  by (simp_all add: config_ok_def)

lemma invoke_config_ok:
  assumes "config_ok self" and "invoke bus self c = Inr (r, self')"
  shows "config_ok self'"
proof (cases c)
  case (Set_range_degree mn mx)
  with assms show ?thesis
    by (auto simp add: set_range_degree_def config_ok_def split: if_splits)
next
  case (Set_range_pulse mn mx)
  with assms show ?thesis
    by (auto simp add: set_range_pulse_def config_ok_def split: if_splits)
next
  case (Control_servo servo_id degree)
  with assms control_servo_cases [of bus self servo_id degree]
  show ?thesis by (auto simp add: Let_def)
next
  case (Control_motor motor_id percent direction)
  with assms control_motor_cases [of bus self motor_id percent direction]
  show ?thesis by (auto simp add: Let_def)
next
  case (Set_address new_address)
  with assms set_address_cases [of bus self new_address]
  show ?thesis by (auto simp add: Let_def)
qed

lemma session_config_ok:
  "config_ok self \<Longrightarrow> session self cs = Inr self' \<Longrightarrow> config_ok self'"
proof (induction cs arbitrary: self)
  case Nil
  then show ?case by simp
next
  case (Cons bc cs)
  obtain bus c where bc: "bc = (bus, c)" by (cases bc)
  from Cons.prems(2) bc obtain r self1 where i: "invoke bus self c = Inr (r, self1)"
    and rest: "session self1 cs = Inr self'"
    by (auto split: sum.splits)
  from invoke_config_ok [OF Cons.prems(1) i] have "config_ok self1" .
  from Cons.IH [OF this rest] show ?case .
qed

lemma session_init_config_ok:
  "session (init addr) cs = Inr self \<Longrightarrow> config_ok self"
  using session_config_ok [OF config_ok_init] by blast

text \<open>
  On integers the channel is not validated and a frame goes out: on a driver built by
  \<^verbatim>\<open>__init__\<close> and used through its methods, every integer \<open>servo_id\<close> with an integer
  degree inside the configured range gives exactly one bus call, whose frame has five
  bytes with byte 1 equal to \<open>servo_id\<close>; on any driver object, every integer
  \<open>motor_id\<close> with an integer percent in 0..100 and a direction \<open>CW\<close> or \<open>CCW\<close> gives
  exactly one bus call, whose frame has byte 1 equal to \<open>motor_id\<close>.
\<close>

lemma channel_unchecked_int:
  "(session (init addr) calls = Inr self \<and> min_degree self \<le> d \<and> d \<le> max_degree self \<longrightarrow>
      (\<exists>ok self' c. control_servo bus self servo_id (PyInt d) = Inr (ok, self')
          \<and> new_calls self self' = [c] \<and> length (frame_of c) = 5
          \<and> frame_of c ! 0 = MODE_RC \<and> frame_of c ! 1 = servo_id))
   \<and> (0 \<le> p \<and> p \<le> 100 \<and> direction \<in> {CW, CCW} \<longrightarrow>
      (\<exists>ok self' c. control_motor bus self motor_id (PyInt p) direction = Inr (ok, self')
          \<and> new_calls self self' = [c] \<and> length (frame_of c) = 5
          \<and> frame_of c ! 0 = MODE_DC \<and> frame_of c ! 1 = motor_id))"
proof (intro conjI impI)
  assume a: "session (init addr) calls = Inr self \<and>
    min_degree self \<le> d \<and> d \<le> max_degree self"
  then have "config_ok self" using session_init_config_ok by blast
  then have "min_degree self \<noteq> max_degree self" by (simp add: config_ok_def)
  then obtain pulse where
    "map_range d (min_degree self) (max_degree self) (min_pulse self) (max_pulse self)
       = Inr pulse"
    by (simp add: map_range_def)
  with a control_servo_valid [of self d pulse bus servo_id]
  show "\<exists>ok self' c. control_servo bus self servo_id (PyInt d) = Inr (ok, self')
          \<and> new_calls self self' = [c] \<and> length (frame_of c) = 5
          \<and> frame_of c ! 0 = MODE_RC \<and> frame_of c ! 1 = servo_id"
    by (simp add: Let_def MODE_RC_def)
next
  assume "0 \<le> p \<and> p \<le> 100 \<and> direction \<in> {CW, CCW}"
  with control_motor_valid [of p direction bus self motor_id]
  show "\<exists>ok self' c. control_motor bus self motor_id (PyInt p) direction = Inr (ok, self')
          \<and> new_calls self self' = [c] \<and> length (frame_of c) = 5
          \<and> frame_of c ! 0 = MODE_DC \<and> frame_of c ! 1 = motor_id"
    by (simp add: Let_def MODE_DC_def)
qed

lemma channel_unchecked_int_example:
  "session (init 0x40) [(bus_ok, Set_range_degree 10 20)]
      = Inr ((init 0x40)\<lparr>min_degree := 10, max_degree := 20\<rparr>)
   \<and> (\<exists>ok self'. control_servo bus_ok ((init 0x40)\<lparr>min_degree := 10, max_degree := 20\<rparr>) 7
                     (PyInt 15) = Inr (ok, self')
          \<and> map (\<lambda>c. frame_of c ! 1)
               (new_calls ((init 0x40)\<lparr>min_degree := 10, max_degree := 20\<rparr>) self') = [7])
   \<and> (\<exists>ok self'. control_motor bus_ok (init 0x40) (- 3) (PyInt 50) CCW = Inr (ok, self')
          \<and> map (\<lambda>c. frame_of c ! 1) (new_calls (init 0x40) self') = [- 3])"
proof -
  have s: "session (init 0x40) [(bus_ok, Set_range_degree 10 20)]
      = Inr ((init 0x40)\<lparr>min_degree := 10, max_degree := 20\<rparr>)"
    by (simp add: set_range_degree_def)
  have d: "min_degree ((init 0x40)\<lparr>min_degree := 10, max_degree := 20\<rparr>) \<le> 15
     \<and> 15 \<le> max_degree ((init 0x40)\<lparr>min_degree := 10, max_degree := 20\<rparr>)"
    by simp
  have p: "(0::int) \<le> 50 \<and> (50::int) \<le> 100 \<and> CCW \<in> {CW, CCW}"
    by simp
  from channel_unchecked_int [where addr = "0x40"
      and calls = "[(bus_ok, Set_range_degree 10 20)]"
      and self = "(init 0x40)\<lparr>min_degree := 10, max_degree := 20\<rparr>" and d = 15
      and bus = bus_ok and servo_id = 7] s d
  have "\<exists>ok self'. control_servo bus_ok ((init 0x40)\<lparr>min_degree := 10, max_degree := 20\<rparr>) 7
                     (PyInt 15) = Inr (ok, self')
          \<and> map (\<lambda>c. frame_of c ! 1)
               (new_calls ((init 0x40)\<lparr>min_degree := 10, max_degree := 20\<rparr>) self') = [7]"
    by fastforce
  moreover
  from channel_unchecked_int [where p = 50 and direction = CCW and bus = bus_ok
      and self = "init 0x40" and motor_id = "- 3"] p
  have "\<exists>ok self'. control_motor bus_ok (init 0x40) (- 3) (PyInt 50) CCW = Inr (ok, self')
          \<and> map (\<lambda>c. frame_of c ! 1) (new_calls (init 0x40) self') = [- 3]"
    by fastforce
  ultimately show ?thesis using s by blast
qed

section \<open>Properties of the driver\<close>

subsection \<open>Checksum\<close>

text \<open>
  C1: in every frame that \<^verbatim>\<open>control_servo\<close> or \<^verbatim>\<open>control_motor\<close> assembles and
  hands to the bus, the frame has five bytes and byte 4 is the additive checksum
  \<open>(frame[0] + frame[1] + frame[2] + frame[3]) & 0xFF\<close>. The frame of a bus call is its
  register argument followed by its block.
\<close>

theorem frame_checksum:
  "(control_servo bus self servo_id degree = Inr (ok, self') \<longrightarrow>
      (\<forall>c \<in> set (new_calls self self'). checksum_ok (frame_of c)))
   \<and> (control_motor bus self motor_id percent direction = Inr (ok, self') \<longrightarrow>
      (\<forall>c \<in> set (new_calls self self'). checksum_ok (frame_of c)))"
proof (intro conjI impI)
  assume r: "control_servo bus self servo_id degree = Inr (ok, self')"
  from control_servo_cases [of bus self servo_id degree] r
  show "\<forall>c \<in> set (new_calls self self'). checksum_ok (frame_of c)"
    by (auto simp add: Let_def checksum_ok_def)
next
  assume r: "control_motor bus self motor_id percent direction = Inr (ok, self')"
  from control_motor_cases [of bus self motor_id percent direction] r
  show "\<forall>c \<in> set (new_calls self self'). checksum_ok (frame_of c)"
    by (auto simp add: Let_def checksum_ok_def)
qed

theorem frame_checksum_witness:
  "control_servo bus_ok (init 0x40) S1 (PyInt 90)
     = Inr (True, (init 0x40)\<lparr>bus_log := [(0x40, 0, [1, 5, 220, 226])]\<rparr>)
   \<and> control_motor bus_down (init 0x40) MB (PyInt 100) CCW
     = Inr (False, (init 0x40)\<lparr>bus_log := [(0x40, 1, [1, 255, 1, 2])]\<rparr>)
   \<and> checksum_ok [0, 1, 5, 220, 226] \<and> checksum_ok [1, 1, 255, 1, 2]"
proof -
  have s: "control_servo bus_ok (init 0x40) S1 (PyInt 90)
     = Inr (True, (init 0x40)\<lparr>bus_log := [(0x40, 0, [1, 5, 220, 226])]\<rparr>)"
    by (simp add: control_servo_def map_range_def send_data_def bus_ok_def init_def
        L9110_consts Let_def and_255_mod drop_bit_eq_div)
  have m: "control_motor bus_down (init 0x40) MB (PyInt 100) CCW
     = Inr (False, (init 0x40)\<lparr>bus_log := [(0x40, 1, [1, 255, 1, 2])]\<rparr>)"
    by (simp add: control_motor_def map_range_def send_data_def bus_down_def init_def
        L9110_consts Let_def and_255_mod)
  from frame_checksum [where bus = bus_ok and self = "init 0x40" and servo_id = S1
      and degree = "PyInt 90" and ok = True
      and self' = "(init 0x40)\<lparr>bus_log := [(0x40, 0, [1, 5, 220, 226])]\<rparr>"] s
  have "checksum_ok [0, 1, 5, 220, 226]"
    by (simp add: new_calls_def init_def)
  moreover
  from frame_checksum [where bus = bus_down and self = "init 0x40" and motor_id = MB
      and percent = "PyInt 100" and direction = CCW and ok = False
      and self' = "(init 0x40)\<lparr>bus_log := [(0x40, 1, [1, 255, 1, 2])]\<rparr>"] m
  have "checksum_ok [1, 1, 255, 1, 2]"
    by (simp add: new_calls_def init_def)
  ultimately show ?thesis using s m by simp
qed

subsection \<open>The address-change frame\<close>

text \<open>
  C2: for every \<open>new_address\<close> from 0x40 to 0x44, \<^verbatim>\<open>set_address\<close> hands the bus the
  frame \<open>[MODE_SET_ADDR, 0, 0, 0, final]\<close> with
  \<open>final = (new_address + MODE_SET_ADDR) & 0xFF\<close>, which is not the additive checksum of
  the four bytes before it.
\<close>

theorem set_address_frame:
  "0x40 \<le> new_address \<and> new_address \<le> 0x44 \<longrightarrow>
     (\<exists>ok self'. set_address bus self new_address = Inr (ok, self')
        \<and> map frame_of (new_calls self self')
            = [[MODE_SET_ADDR, 0, 0, 0, (new_address + MODE_SET_ADDR) AND 0xFF]])
     \<and> (new_address + MODE_SET_ADDR) AND 0xFF \<noteq> (MODE_SET_ADDR + 0 + 0 + 0) AND 0xFF"
proof
  assume v: "0x40 \<le> new_address \<and> new_address \<le> 0x44"
  then have b: "(new_address + 2) AND 0xFF = new_address + 2"
    by (simp add: and_255_mod)
  from v have "set_address bus self new_address =
     Inr (bus (address self) 2 [0, 0, 0, new_address + 2] = Written,
          self\<lparr>bus_log := bus_log self @ [(address self, 2, [0, 0, 0, new_address + 2])],
               address := if bus (address self) 2 [0, 0, 0, new_address + 2] = Written
                          then new_address else address self\<rparr>)"
    using set_address_valid [of new_address bus self] by (simp add: Let_def)
  then have "\<exists>ok self'. set_address bus self new_address = Inr (ok, self')
        \<and> map frame_of (new_calls self self')
            = [[MODE_SET_ADDR, 0, 0, 0, (new_address + MODE_SET_ADDR) AND 0xFF]]"
    using b by (simp add: MODE_SET_ADDR_def)
  moreover have "(new_address + MODE_SET_ADDR) AND 0xFF \<noteq> (MODE_SET_ADDR + 0 + 0 + 0) AND 0xFF"
    using v b by (simp add: MODE_SET_ADDR_def and_255_mod)
  ultimately show "(\<exists>ok self'. set_address bus self new_address = Inr (ok, self')
        \<and> map frame_of (new_calls self self')
            = [[MODE_SET_ADDR, 0, 0, 0, (new_address + MODE_SET_ADDR) AND 0xFF]])
     \<and> (new_address + MODE_SET_ADDR) AND 0xFF \<noteq> (MODE_SET_ADDR + 0 + 0 + 0) AND 0xFF"
    by blast
qed

theorem set_address_frame_witness:
  "(0x40::int) \<le> 0x41 \<and> (0x41::int) \<le> 0x44
   \<and> (\<exists>ok self'. set_address bus_ok (init 0x40) 0x41 = Inr (ok, self')
        \<and> map frame_of (new_calls (init 0x40) self') = [[2, 0, 0, 0, 67]])"
  using set_address_frame [of "0x41" bus_ok "init 0x40"]
  by (simp add: MODE_SET_ADDR_def and_255_mod)

subsection \<open>Range mapping\<close>

text \<open>
  C3: for all integers \<open>x\<close>, \<open>in_min\<close>, \<open>in_max\<close>, \<open>out_min\<close>, \<open>out_max\<close> with
  \<open>in_max \<noteq> in_min\<close>, \<^verbatim>\<open>_map_range\<close> returns
  \<open>floor ((x - in_min) * (out_max - out_min) / (in_max - in_min)) + out_min\<close>, the quotient
  rounded towards minus infinity; in particular 90, 0 and 180 map from 0..180 into
  500..2500 as 1500, 500 and 2500.
\<close>

theorem map_range_floor:
  "(in_max \<noteq> in_min \<longrightarrow>
      map_range x in_min in_max out_min out_max =
        Inr (map_range_spec x in_min in_max out_min out_max))
   \<and> map_range 90 0 180 500 2500 = Inr 1500
   \<and> map_range 0 0 180 500 2500 = Inr 500
   \<and> map_range 180 0 180 500 2500 = Inr 2500"
proof -
  have "map_range_spec x in_min in_max out_min out_max =
          (x - in_min) * (out_max - out_min) div (in_max - in_min) + out_min"
    unfolding map_range_spec_def by (simp only: floor_divide_of_int_eq)
  then show ?thesis
    by (simp add: map_range_def)
qed

theorem map_range_floor_witness:
  "(2::int) \<noteq> 0 \<and> map_range (-7) 0 2 0 1 = Inr (map_range_spec (-7) 0 2 0 1)
   \<and> map_range (-7) 0 2 0 1 = Inr (-4)"
  using map_range_floor [of 2 0 "-7" 0 1] by (simp add: map_range_def)

subsection \<open>The stored address follows the transmission\<close>

text \<open>
  C4: \<^verbatim>\<open>set_address\<close> with \<open>new_address\<close> from 0x40 to 0x44 makes exactly one bus
  write, to the old address. If that write succeeds the method returns \<open>True\<close> and the
  stored address is \<open>new_address\<close>; if it raises \<^verbatim>\<open>IOError\<close> the method returns
  \<open>False\<close> and the stored address is the one from before the call.
\<close>

theorem set_address_commit:
  "0x40 \<le> new_address \<and> new_address \<le> 0x44 \<longrightarrow>
     (\<exists>ok self'. set_address bus self new_address = Inr (ok, self')
        \<and> new_calls self self'
             = [(address self, MODE_SET_ADDR, [0, 0, 0, new_address + MODE_SET_ADDR])]
        \<and> (bus (address self) MODE_SET_ADDR [0, 0, 0, new_address + MODE_SET_ADDR] = Written
              \<longrightarrow> ok \<and> address self' = new_address)
        \<and> (bus (address self) MODE_SET_ADDR [0, 0, 0, new_address + MODE_SET_ADDR] = IOError
              \<longrightarrow> \<not> ok \<and> address self' = address self))"
proof
  assume "0x40 \<le> new_address \<and> new_address \<le> 0x44"
  then have "set_address bus self new_address =
     Inr (bus (address self) 2 [0, 0, 0, new_address + 2] = Written,
          self\<lparr>bus_log := bus_log self @ [(address self, 2, [0, 0, 0, new_address + 2])],
               address := if bus (address self) 2 [0, 0, 0, new_address + 2] = Written
                          then new_address else address self\<rparr>)"
    using set_address_valid [of new_address bus self] by (simp add: Let_def)
  then show "\<exists>ok self'. set_address bus self new_address = Inr (ok, self')
        \<and> new_calls self self'
             = [(address self, MODE_SET_ADDR, [0, 0, 0, new_address + MODE_SET_ADDR])]
        \<and> (bus (address self) MODE_SET_ADDR [0, 0, 0, new_address + MODE_SET_ADDR] = Written
              \<longrightarrow> ok \<and> address self' = new_address)
        \<and> (bus (address self) MODE_SET_ADDR [0, 0, 0, new_address + MODE_SET_ADDR] = IOError
              \<longrightarrow> \<not> ok \<and> address self' = address self)"
    by (simp add: MODE_SET_ADDR_def)
qed

theorem set_address_commit_witness:
  "(0x40::int) \<le> 0x41 \<and> (0x41::int) \<le> 0x44
   \<and> bus_ok 0x40 MODE_SET_ADDR [0, 0, 0, 0x41 + MODE_SET_ADDR] = Written
   \<and> bus_down 0x40 MODE_SET_ADDR [0, 0, 0, 0x41 + MODE_SET_ADDR] = IOError
   \<and> (\<exists>self'. set_address bus_ok (init 0x40) 0x41 = Inr (True, self') \<and> address self' = 0x41)
   \<and> (\<exists>self'. set_address bus_down (init 0x40) 0x41 = Inr (False, self') \<and> address self' = 0x40)"
  using set_address_commit [of "0x41" bus_ok "init 0x40"]
    set_address_commit [of "0x41" bus_down "init 0x40"]
  by (auto simp add: bus_ok_def bus_down_def init_def)

subsection \<open>Range configuration\<close>

text \<open>
  C5: for all \<open>mn\<close> and \<open>mx\<close>, \<^verbatim>\<open>set_range_degree\<close> returns \<open>True\<close> exactly when
  \<open>0 \<le> mn < mx \<le> 360\<close> and then stores the two bounds, changing nothing else;
  \<^verbatim>\<open>set_range_pulse\<close> does the same with the limit 2815. On every other input each
  returns \<open>False\<close> and the object is as before.
\<close>

theorem set_range_exact:
  "(fst (set_range_degree self mn mx) \<longleftrightarrow> 0 \<le> mn \<and> mn < mx \<and> mx \<le> 360)
   \<and> (0 \<le> mn \<and> mn < mx \<and> mx \<le> 360 \<longrightarrow>
        snd (set_range_degree self mn mx) = self\<lparr>min_degree := mn, max_degree := mx\<rparr>)
   \<and> (\<not> (0 \<le> mn \<and> mn < mx \<and> mx \<le> 360) \<longrightarrow> snd (set_range_degree self mn mx) = self)
   \<and> (fst (set_range_pulse self mn mx) \<longleftrightarrow> 0 \<le> mn \<and> mn < mx \<and> mx \<le> 2815)
   \<and> (0 \<le> mn \<and> mn < mx \<and> mx \<le> 2815 \<longrightarrow>
        snd (set_range_pulse self mn mx) = self\<lparr>min_pulse := mn, max_pulse := mx\<rparr>)
   \<and> (\<not> (0 \<le> mn \<and> mn < mx \<and> mx \<le> 2815) \<longrightarrow> snd (set_range_pulse self mn mx) = self)"
  by (auto simp add: set_range_degree_def set_range_pulse_def)

theorem set_range_exact_witness:
  "set_range_degree (init 0x40) 0 360 = (True, (init 0x40)\<lparr>min_degree := 0, max_degree := 360\<rparr>)
   \<and> set_range_degree (init 0x40) 0 361 = (False, init 0x40)
   \<and> set_range_degree (init 0x40) 90 90 = (False, init 0x40)
   \<and> set_range_degree (init 0x40) (-1) 90 = (False, init 0x40)
   \<and> set_range_pulse (init 0x40) 0 2815 = (True, (init 0x40)\<lparr>min_pulse := 0, max_pulse := 2815\<rparr>)
   \<and> set_range_pulse (init 0x40) 0 2816 = (False, init 0x40)
   \<and> set_range_pulse (init 0x40) 361 2000 = (True, (init 0x40)\<lparr>min_pulse := 361, max_pulse := 2000\<rparr>)"
  using set_range_exact [of "init 0x40" 0 360] set_range_exact [of "init 0x40" 0 361]
    set_range_exact [of "init 0x40" 90 90] set_range_exact [of "init 0x40" "-1" 90]
    set_range_exact [of "init 0x40" 0 2815] set_range_exact [of "init 0x40" 0 2816]
    set_range_exact [of "init 0x40" 361 2000]
  by (simp add: prod_eq_iff)

subsection \<open>Rejected parameters\<close>

text \<open>
  C6: a degree outside the configured range in \<^verbatim>\<open>control_servo\<close>, a percent outside
  0..100 or a direction other than \<open>CW\<close> and \<open>CCW\<close> in \<^verbatim>\<open>control_motor\<close>, and an
  address outside 0x40..0x44 in \<^verbatim>\<open>set_address\<close> each make the method return
  \<open>False\<close> with the object, the log of bus calls included, exactly as before: the bus
  is not called and nothing is mutated, whatever the bus would have answered. The degree
  and the percent may be integers or floats.
\<close>

theorem invalid_parameters_stay_local:
  "(\<not> (int_le (min_degree self) degree \<and> le_int degree (max_degree self)) \<longrightarrow>
      control_servo bus self servo_id degree = Inr (False, self))
   \<and> (\<not> (int_le 0 percent \<and> le_int percent 100) \<or> direction \<notin> {CW, CCW} \<longrightarrow>
      control_motor bus self motor_id percent direction = Inr (False, self))
   \<and> (\<not> (0x40 \<le> new_address \<and> new_address \<le> 0x44) \<longrightarrow>
      set_address bus self new_address = Inr (False, self))
   \<and> new_calls self self = []"
  using control_servo_invalid [of self degree bus servo_id]
    control_motor_invalid [of percent direction bus self motor_id]
    set_address_invalid [of new_address bus self]
  by (simp add: new_calls_def)

theorem invalid_parameters_stay_local_witness:
  "control_servo bus_ok (init 0x40) S1 (PyInt 181) = Inr (False, init 0x40)
   \<and> control_servo bus_ok (init 0x40) S1 (PyInt (- 1)) = Inr (False, init 0x40)
   \<and> control_servo bus_ok (init 0x40) S1 (PyFloat (Finite (361 / 2))) = Inr (False, init 0x40)
   \<and> control_servo bus_ok (init 0x40) S1 (PyFloat NaN) = Inr (False, init 0x40)
   \<and> control_motor bus_ok (init 0x40) MA (PyInt 101) CW = Inr (False, init 0x40)
   \<and> control_motor bus_ok (init 0x40) MA (PyInt 50) 2 = Inr (False, init 0x40)
   \<and> control_motor bus_ok (init 0x40) MA (PyFloat (Finite (- 1 / 2))) CW
         = Inr (False, init 0x40)
   \<and> control_motor bus_ok (init 0x40) MA (PyFloat Pos_inf) CW = Inr (False, init 0x40)
   \<and> set_address bus_ok (init 0x40) 0x45 = Inr (False, init 0x40)
   \<and> set_address bus_ok (init 0x40) 0x3F = Inr (False, init 0x40)
   \<and> bus_log (init 0x40) = []"
  using invalid_parameters_stay_local [where self = "init 0x40" and bus = bus_ok
      and servo_id = S1 and degree = "PyInt 181" and motor_id = MA and percent = "PyInt 101"
      and direction = CW and new_address = "0x45"]
    invalid_parameters_stay_local [where self = "init 0x40" and bus = bus_ok
      and servo_id = S1 and degree = "PyInt (- 1)" and motor_id = MA and percent = "PyInt 50"
      and direction = 2 and new_address = "0x3F"]
    invalid_parameters_stay_local [where self = "init 0x40" and bus = bus_ok
      and servo_id = S1 and degree = "PyFloat (Finite (361 / 2))" and motor_id = MA
      and percent = "PyFloat (Finite (- 1 / 2))" and direction = CW and new_address = "0x45"]
    invalid_parameters_stay_local [where self = "init 0x40" and bus = bus_ok
      and servo_id = S1 and degree = "PyFloat NaN" and motor_id = MA
      and percent = "PyFloat Pos_inf" and direction = CW and new_address = "0x45"]
  by (simp add: init_def CW_def CCW_def)

subsection \<open>Worked frames\<close>

text \<open>
  C7: with the default ranges (degrees 0..180, pulses 500..2500),
  \<^verbatim>\<open>control_servo(S1, 90)\<close> hands the bus the frame \<open>[0, 1, 5, 220, 226]\<close>: the
  pulse 1500 split into its high byte 5 and low byte 220, and the checksum 226. The
  method returns whether the write succeeded.
\<close>

theorem control_servo_S1_90_default:
  "control_servo bus ((init addr)\<lparr>bus_log := calls\<rparr>) S1 (PyInt 90) =
     Inr (bus addr 0 [1, 5, 220, 226] = Written,
          (init addr)\<lparr>bus_log := calls @ [(addr, 0, [1, 5, 220, 226])]\<rparr>)
   \<and> frame_of (addr, 0, [1, 5, 220, 226]) = [0, 1, 5, 220, 226]
   \<and> checksum_ok [0, 1, 5, 220, 226]
   \<and> map_range 90 0 180 500 2500 = Inr 1500
   \<and> drop_bit 8 (1500::int) = 5 \<and> (1500::int) AND 0xFF = 220"
  by (simp add: control_servo_def map_range_def send_data_def init_def checksum_ok_def
      L9110_consts Let_def and_255_mod drop_bit_eq_div split: io_result.split)

theorem control_servo_S1_90_default_witness:
  "control_servo bus_ok (init 0x40) S1 (PyInt 90)
     = Inr (True, (init 0x40)\<lparr>bus_log := [(0x40, 0, [1, 5, 220, 226])]\<rparr>)
   \<and> control_servo bus_down (init 0x40) S1 (PyInt 90)
     = Inr (False, (init 0x40)\<lparr>bus_log := [(0x40, 0, [1, 5, 220, 226])]\<rparr>)"
  using control_servo_S1_90_default [where bus = bus_ok and addr = "0x40" and calls = "[]"]
    control_servo_S1_90_default [where bus = bus_down and addr = "0x40" and calls = "[]"]
  by (simp add: bus_ok_def bus_down_def init_def)

text \<open>
  C8: \<^verbatim>\<open>control_motor(MA, 50, CW)\<close> hands the bus the frame
  \<open>[1, 0, 127, 0, 128]\<close>: byte 2 is 50 mapped from 0..100 into 0..255, which is 127,
  byte 3 the direction \<open>CW = 0\<close>, and 128 the checksum.
\<close>

theorem control_motor_MA_50_CW:
  "control_motor bus self MA (PyInt 50) CW =
     Inr (bus (address self) 1 [0, 127, 0, 128] = Written,
          self\<lparr>bus_log := bus_log self @ [(address self, 1, [0, 127, 0, 128])]\<rparr>)
   \<and> frame_of (address self, 1, [0, 127, 0, 128]) = [1, 0, 127, 0, 128]
   \<and> checksum_ok [1, 0, 127, 0, 128]
   \<and> map_range 50 0 100 0 255 = Inr 127"
  by (simp add: control_motor_def map_range_def send_data_def checksum_ok_def
      L9110_consts Let_def and_255_mod split: io_result.split)

theorem control_motor_MA_50_CW_witness:
  "control_motor bus_ok (init 0x40) MA (PyInt 50) CW
     = Inr (True, (init 0x40)\<lparr>bus_log := [(0x40, 1, [0, 127, 0, 128])]\<rparr>)
   \<and> control_motor bus_down (init 0x40) MA (PyInt 50) CW
     = Inr (False, (init 0x40)\<lparr>bus_log := [(0x40, 1, [0, 127, 0, 128])]\<rparr>)"
  using control_motor_MA_50_CW [where bus = bus_ok and self = "init 0x40"]
    control_motor_MA_50_CW [where bus = bus_down and self = "init 0x40"]
  by (simp add: bus_ok_def bus_down_def init_def)

subsection \<open>What the bus is handed\<close>

text \<open>
  C9, as the code has it: \<^verbatim>\<open>_send_data\<close> hands byte 0 of a five-byte frame to the
  bus as the register argument and bytes 1 to 4, a block of exactly four bytes, as the
  data; so every bus call of \<^verbatim>\<open>control_servo\<close>, \<^verbatim>\<open>control_motor\<close> and
  \<^verbatim>\<open>set_address\<close> has the mode code as register and a block of four bytes.
\<close>

theorem transmit_register_and_block:
  "(send_data bus self [b0, b1, b2, b3, b4] =
      Inr (bus (address self) b0 [b1, b2, b3, b4] = Written,
           self\<lparr>bus_log := bus_log self @ [(address self, b0, [b1, b2, b3, b4])]\<rparr>))
   \<and> (control_servo bus self servo_id degree = Inr (ok, self') \<longrightarrow>
        (\<forall>c \<in> set (new_calls self self').
           register_of c = MODE_RC \<and> register_of c = frame_of c ! 0 \<and>
           payload_of c = tl (frame_of c) \<and> length (payload_of c) = 4))
   \<and> (control_motor bus self motor_id percent direction = Inr (ok, self') \<longrightarrow>
        (\<forall>c \<in> set (new_calls self self').
           register_of c = MODE_DC \<and> register_of c = frame_of c ! 0 \<and>
           payload_of c = tl (frame_of c) \<and> length (payload_of c) = 4))
   \<and> (set_address bus self new_address = Inr (ok, self') \<longrightarrow>
        (\<forall>c \<in> set (new_calls self self').
           register_of c = MODE_SET_ADDR \<and> register_of c = frame_of c ! 0 \<and>
           payload_of c = tl (frame_of c) \<and> length (payload_of c) = 4))"
proof (intro conjI impI)
  show "send_data bus self [b0, b1, b2, b3, b4] =
      Inr (bus (address self) b0 [b1, b2, b3, b4] = Written,
           self\<lparr>bus_log := bus_log self @ [(address self, b0, [b1, b2, b3, b4])]\<rparr>)"
    by (rule send_data_frame)
next
  assume r: "control_servo bus self servo_id degree = Inr (ok, self')"
  from control_servo_cases [of bus self servo_id degree] r
  show "\<forall>c \<in> set (new_calls self self').
           register_of c = MODE_RC \<and> register_of c = frame_of c ! 0 \<and>
           payload_of c = tl (frame_of c) \<and> length (payload_of c) = 4"
    by (auto simp add: Let_def MODE_RC_def)
next
  assume r: "control_motor bus self motor_id percent direction = Inr (ok, self')"
  from control_motor_cases [of bus self motor_id percent direction] r
  show "\<forall>c \<in> set (new_calls self self').
           register_of c = MODE_DC \<and> register_of c = frame_of c ! 0 \<and>
           payload_of c = tl (frame_of c) \<and> length (payload_of c) = 4"
    by (auto simp add: Let_def MODE_DC_def)
next
  assume r: "set_address bus self new_address = Inr (ok, self')"
  from set_address_cases [of bus self new_address] r
  show "\<forall>c \<in> set (new_calls self self').
           register_of c = MODE_SET_ADDR \<and> register_of c = frame_of c ! 0 \<and>
           payload_of c = tl (frame_of c) \<and> length (payload_of c) = 4"
    by (auto simp add: Let_def MODE_SET_ADDR_def)
qed

theorem transmit_register_and_block_witness:
  "control_servo bus_ok (init 0x40) S2 (PyInt 0)
     = Inr (True, (init 0x40)\<lparr>bus_log := [(0x40, 0, [2, 1, 244, 247])]\<rparr>)
   \<and> control_motor bus_ok (init 0x40) MB (PyInt 100) CCW
     = Inr (True, (init 0x40)\<lparr>bus_log := [(0x40, 1, [1, 255, 1, 2])]\<rparr>)
   \<and> set_address bus_down (init 0x40) 0x44
     = Inr (False, (init 0x40)\<lparr>bus_log := [(0x40, 2, [0, 0, 0, 70])]\<rparr>)
   \<and> length (payload_of (0x40, 0, [2, 1, 244, 247])) = 4
   \<and> length (payload_of (0x40, 1, [1, 255, 1, 2])) = 4
   \<and> length (payload_of (0x40, 2, [0, 0, 0, 70])) = 4"
proof -
  have s: "control_servo bus_ok (init 0x40) S2 (PyInt 0)
     = Inr (True, (init 0x40)\<lparr>bus_log := [(0x40, 0, [2, 1, 244, 247])]\<rparr>)"
    by (simp add: control_servo_def map_range_def send_data_def bus_ok_def init_def
        L9110_consts Let_def and_255_mod drop_bit_eq_div)
  have m: "control_motor bus_ok (init 0x40) MB (PyInt 100) CCW
     = Inr (True, (init 0x40)\<lparr>bus_log := [(0x40, 1, [1, 255, 1, 2])]\<rparr>)"
    by (simp add: control_motor_def map_range_def send_data_def bus_ok_def init_def
        L9110_consts Let_def and_255_mod)
  have a: "set_address bus_down (init 0x40) 0x44
     = Inr (False, (init 0x40)\<lparr>bus_log := [(0x40, 2, [0, 0, 0, 70])]\<rparr>)"
    by (simp add: set_address_def send_data_def bus_down_def init_def L9110_consts Let_def)
  from transmit_register_and_block [where bus = bus_ok and self = "init 0x40"
      and servo_id = S2 and degree = "PyInt 0" and ok = True
      and self' = "(init 0x40)\<lparr>bus_log := [(0x40, 0, [2, 1, 244, 247])]\<rparr>"] s
  have "length (payload_of (0x40, 0, [2, 1, 244, 247])) = 4"
    by (simp add: new_calls_def init_def)
  moreover
  from transmit_register_and_block [where bus = bus_ok and self = "init 0x40"
      and motor_id = MB and percent = "PyInt 100" and direction = CCW and ok = True
      and self' = "(init 0x40)\<lparr>bus_log := [(0x40, 1, [1, 255, 1, 2])]\<rparr>"] m
  have "length (payload_of (0x40, 1, [1, 255, 1, 2])) = 4"
    by (simp add: new_calls_def init_def)
  moreover
  from transmit_register_and_block [where bus = bus_down and self = "init 0x40"
      and new_address = "0x44" and ok = False
      and self' = "(init 0x40)\<lparr>bus_log := [(0x40, 2, [0, 0, 0, 70])]\<rparr>"] a
  have "length (payload_of (0x40, 2, [0, 0, 0, 70])) = 4"
    by (simp add: new_calls_def init_def)
  ultimately show ?thesis using s m a by simp
qed

text \<open>
  The block is not three bytes long: the one bus call of \<^verbatim>\<open>control_servo(S1, 90)\<close> on
  a fresh driver carries the four bytes 1, 5, 220, 226.
\<close>

theorem payload_three_bytes_counterexample:
  "new_calls (init 0x40) (snd (projr (control_servo bus_ok (init 0x40) S1 (PyInt 90))))
     = [(0x40, 0, [1, 5, 220, 226])]
   \<and> length (payload_of (0x40, 0, [1, 5, 220, 226])) \<noteq> 3"
  by (simp add: control_servo_def map_range_def send_data_def bus_ok_def init_def new_calls_def
      L9110_consts Let_def and_255_mod drop_bit_eq_div)

subsection \<open>Channels are not validated\<close>

text \<open>
  C10: neither \<^verbatim>\<open>control_servo\<close> nor \<^verbatim>\<open>control_motor\<close> checks its channel, and for
  every in-range degree, or in-range percent and direction, a frame with byte 1 equal to
  the channel is to be transmitted. The docstrings declare \<^verbatim>\<open>degree\<close> and \<^verbatim>\<open>percent\<close>
  as floats, and on floats the code does not do so: with the default ranges
  \<^verbatim>\<open>control_servo(S1, 90.0)\<close> raises \<^verbatim>\<open>TypeError\<close> at \<^verbatim>\<open>pulse >> 8\<close>, and on any
  driver \<^verbatim>\<open>control_motor(MA, 50.0, CW)\<close> raises \<^verbatim>\<open>TypeError\<close> at
  \<^verbatim>\<open>sum(data) & 0xFF\<close>; neither reaches the bus.
\<close>

theorem channel_unchecked_float_raises:
  "int_le (min_degree (init addr)) (PyFloat (Finite 90))
   \<and> le_int (PyFloat (Finite 90)) (max_degree (init addr))
   \<and> control_servo bus ((init addr)\<lparr>bus_log := calls\<rparr>) S1 (PyFloat (Finite 90))
       = Inl TypeError
   \<and> int_le 0 (PyFloat (Finite 50)) \<and> le_int (PyFloat (Finite 50)) 100 \<and> CW \<in> {CW, CCW}
   \<and> control_motor bus self MA (PyFloat (Finite 50)) CW = Inl TypeError"
proof -
  have "config_ok ((init addr)\<lparr>bus_log := calls\<rparr>)"
    by (simp add: config_ok_init)
  then have "control_servo bus ((init addr)\<lparr>bus_log := calls\<rparr>) S1 (PyFloat (Finite 90))
       = Inl TypeError"
    by (rule control_servo_float_in_range) (simp_all add: init_def)
  moreover have "control_motor bus self MA (PyFloat (Finite 50)) CW = Inl TypeError"
    using control_motor_float_in_range [of "Finite 50" CW bus self MA]
    by (simp add: float_overflow_small MODE_DC_def MA_def)
  ultimately show ?thesis by (simp add: init_def)
qed

end
